theory Spec2Isabelle
  imports Complex_Main
begin

section \<open>The dimensional-analysis library (cpp\_guide\_ff8075.cpp)\<close>

text \<open>
  The library is compile-time heavy: the unit of a quantity is a C++ type, and the
  compiler accepts or rejects an expression and computes the type of its result. The
  embedding makes that explicit. A type is a value of a HOL datatype, an operator
  returns either the compile error (\<open>Inl\<close>) or the resulting quantity (\<open>Inr\<close>), and the
  quantity carries its two template arguments (\<open>UnitType\<close>, \<open>ValueType\<close>) next to the
  one runtime member.
\<close>

subsection \<open>Exponents: \<open>std::ratio\<close>\<close>

text \<open>
  \<open>std::ratio<N, D>\<close> is a type named by its two template arguments of type
  \<open>intmax_t\<close>. Two instantiations are the same type exactly when both arguments are
  the same numbers: \<open>std::ratio<2, 4>\<close> and \<open>std::ratio<1, 2>\<close> are different types.
  The header \<open><ratio>\<close> is the C++ standard library's and not part of the repository;
  the definitions below follow [ratio.ratio] and [ratio.arithmetic] of the standard.
\<close>

datatype ratio = Ratio int int

text \<open>The largest value of \<open>intmax_t\<close>, 64 bits wide on the platforms the file builds on.\<close>

definition INTMAX_MAX :: int where
  "INTMAX_MAX = 2 ^ 63 - 1"

text \<open>
  Instantiating \<open>std::ratio<N, D>\<close> is ill-formed when \<open>D\<close> is zero or when the absolute
  value of \<open>N\<close> or \<open>D\<close> is not representable.
\<close>

fun ratio_well_formed :: "ratio \<Rightarrow> bool" where
  "ratio_well_formed (Ratio n d) = (d \<noteq> 0 \<and> \<bar>n\<bar> \<le> INTMAX_MAX \<and> \<bar>d\<bar> \<le> INTMAX_MAX)"

text \<open>
  The static members: \<open>num = sign(N) * sign(D) * abs(N) / gcd\<close> and
  \<open>den = abs(D) / gcd\<close>, and the member \<open>type = ratio<num, den>\<close>.
\<close>

fun ratio_num :: "ratio \<Rightarrow> int" where
  "ratio_num (Ratio n d) = sgn n * sgn d * (\<bar>n\<bar> div gcd \<bar>n\<bar> \<bar>d\<bar>)"

fun ratio_den :: "ratio \<Rightarrow> int" where
  "ratio_den (Ratio n d) = \<bar>d\<bar> div gcd \<bar>n\<bar> \<bar>d\<bar>"

definition ratio_type :: "ratio \<Rightarrow> ratio" where
  "ratio_type r = Ratio (ratio_num r) (ratio_den r)"

datatype compile_error =
    No_matching_operator   \<comment> \<open>overload resolution finds no viable \<open>operator\<close>\<close>
  | Ratio_ill_formed       \<comment> \<open>a \<open>static_assert\<close> of \<open><ratio>\<close> fails: zero denominator or overflow\<close>

text \<open>
  \<open>std::ratio_add<R1, R2>\<close> and \<open>std::ratio_subtract<R1, R2>\<close>: with
  \<open>X = R1::num * R2::den \<plusminus> R2::num * R1::den\<close> and \<open>Y = R1::den * R2::den\<close> the result is
  \<open>ratio<U, V>\<close> where \<open>U = ratio<X, Y>::num\<close> and \<open>V = ratio<X, Y>::den\<close>. The program
  is ill-formed when \<open>U\<close> or \<open>V\<close> cannot be represented. Where only the intermediate
  \<open>X\<close> or \<open>Y\<close> overflows the standard lets the implementation either reject the program
  or yield the correct \<open>U\<close> and \<open>V\<close>; the model yields them, as libstdc++ does. Where a
  theorem below says outright that an expression is accepted, \<open>X\<close> and \<open>Y\<close> are
  representable, and the rejections it exhibits have \<open>U\<close> out of range: those hold for
  every implementation.
\<close>

definition ratio_result :: "int \<Rightarrow> int \<Rightarrow> compile_error + ratio" where
  "ratio_result x y =
     (let u = ratio_num (Ratio x y); v = ratio_den (Ratio x y)
      in if \<bar>u\<bar> \<le> INTMAX_MAX \<and> \<bar>v\<bar> \<le> INTMAX_MAX then Inr (Ratio u v)
         else Inl Ratio_ill_formed)"

definition ratio_add :: "ratio \<Rightarrow> ratio \<Rightarrow> compile_error + ratio" where
  "ratio_add r1 r2 =
     (if ratio_well_formed r1 \<and> ratio_well_formed r2
      then ratio_result (ratio_num r1 * ratio_den r2 + ratio_num r2 * ratio_den r1)
             (ratio_den r1 * ratio_den r2)
      else Inl Ratio_ill_formed)"

definition ratio_subtract :: "ratio \<Rightarrow> ratio \<Rightarrow> compile_error + ratio" where
  "ratio_subtract r1 r2 =
     (if ratio_well_formed r1 \<and> ratio_well_formed r2
      then ratio_result (ratio_num r1 * ratio_den r2 - ratio_num r2 * ratio_den r1)
             (ratio_den r1 * ratio_den r2)
      else Inl Ratio_ill_formed)"

text \<open>The operators name \<open>typename std::ratio_add<...>::type\<close>: the member \<open>type\<close> of the result.\<close>

definition ratio_add_type :: "ratio \<Rightarrow> ratio \<Rightarrow> compile_error + ratio" where
  "ratio_add_type r1 r2 =
     (case ratio_add r1 r2 of Inl e \<Rightarrow> Inl e | Inr r \<Rightarrow> Inr (ratio_type r))"

definition ratio_subtract_type :: "ratio \<Rightarrow> ratio \<Rightarrow> compile_error + ratio" where
  "ratio_subtract_type r1 r2 =
     (case ratio_subtract r1 r2 of Inl e \<Rightarrow> Inl e | Inr r \<Rightarrow> Inr (ratio_type r))"

text \<open>\<open>template <int N> using Exponent = std::ratio<N, 1>\<close>\<close>

definition Exponent :: "int \<Rightarrow> ratio" where
  "Exponent n = Ratio n 1"

subsection \<open>Units\<close>

text \<open>
  \<open>struct Unit\<close> has no data members; it is the tuple of its four template arguments,
  which the member aliases \<open>LengthRatio\<close>, \<open>MassRatio\<close>, \<open>TimeRatio\<close> and
  \<open>CurrentRatio\<close> give back unchanged. \<open>Unit\<close> does not normalise what it is given.
  The arguments are taken to be instantiations of \<open>std::ratio\<close>, the only types with
  which \<open>operator*\<close> and \<open>operator/\<close> can be used.
\<close>

record Unit =
  LengthRatio :: ratio
  MassRatio :: ratio
  TimeRatio :: ratio
  CurrentRatio :: ratio

text \<open>The named units; an omitted template argument defaults to \<open>Exponent<0>\<close>.\<close>

definition Meter :: Unit where
  "Meter = \<lparr>LengthRatio = Exponent 1, MassRatio = Exponent 0, TimeRatio = Exponent 0,
            CurrentRatio = Exponent 0\<rparr>"

definition Kilogram :: Unit where
  "Kilogram = \<lparr>LengthRatio = Exponent 0, MassRatio = Exponent 1, TimeRatio = Exponent 0,
               CurrentRatio = Exponent 0\<rparr>"

definition Second :: Unit where
  "Second = \<lparr>LengthRatio = Exponent 0, MassRatio = Exponent 0, TimeRatio = Exponent 1,
             CurrentRatio = Exponent 0\<rparr>"

definition Ampere :: Unit where
  "Ampere = \<lparr>LengthRatio = Exponent 0, MassRatio = Exponent 0, TimeRatio = Exponent 0,
             CurrentRatio = Exponent 1\<rparr>"

definition Velocity :: Unit where
  "Velocity = \<lparr>LengthRatio = Exponent 1, MassRatio = Exponent 0, TimeRatio = Exponent (- 1),
               CurrentRatio = Exponent 0\<rparr>"

definition Acceleration :: Unit where
  "Acceleration = \<lparr>LengthRatio = Exponent 1, MassRatio = Exponent 0,
                   TimeRatio = Exponent (- 2), CurrentRatio = Exponent 0\<rparr>"

definition Area :: Unit where
  "Area = \<lparr>LengthRatio = Exponent 2, MassRatio = Exponent 0, TimeRatio = Exponent 0,
           CurrentRatio = Exponent 0\<rparr>"

definition Force :: Unit where
  "Force = \<lparr>LengthRatio = Exponent 1, MassRatio = Exponent 1, TimeRatio = Exponent (- 2),
            CurrentRatio = Exponent 0\<rparr>"

definition Dimensionless :: Unit where
  "Dimensionless = \<lparr>LengthRatio = Exponent 0, MassRatio = Exponent 0, TimeRatio = Exponent 0,
                    CurrentRatio = Exponent 0\<rparr>"

text \<open>
  \<open>Unit\<close> itself never looks into its arguments, so that a unit can be named, and a
  quantity of it constructed, with an exponent type such as \<open>std::ratio<1, 0>\<close> that
  cannot be instantiated. A unit is well-formed when its four exponent types can.
\<close>

definition Unit_well_formed :: "Unit \<Rightarrow> bool" where
  "Unit_well_formed u =
     (ratio_well_formed (LengthRatio u) \<and> ratio_well_formed (MassRatio u) \<and>
      ratio_well_formed (TimeRatio u) \<and> ratio_well_formed (CurrentRatio u))"

subsection \<open>Quantities\<close>

text \<open>
  \<open>template <typename UnitType, typename ValueType = double> struct Quantity\<close> has the
  single member \<open>ValueType value\<close>. In the model a quantity carries its two template
  arguments as well, so that the type of an operand can be compared where the compiler
  compares it. \<open>value_type\<close> names the scalar type; the scalars themselves live in a
  HOL type \<open>'v\<close> whose operations \<open>+\<close>, \<open>-\<close>, \<open>*\<close> and \<open>/\<close> stand for the scalar type's
  own, of which nothing is assumed: the operators hand the scalars to them and keep what
  they return. The member is called \<open>val\<close> here, after the constructor's parameter.
\<close>

datatype value_type = Float | Double | Long_double | Int

record 'v Quantity =
  UnitType :: Unit
  ValueType :: value_type
  val :: 'v

text \<open>\<open>explicit Quantity(ValueType val) : value(val) {}\<close>\<close>

definition Quantity :: "Unit \<Rightarrow> value_type \<Rightarrow> 'v \<Rightarrow> 'v Quantity" where
  "Quantity u t v = \<lparr>UnitType = u, ValueType = t, val = v\<rparr>"

text \<open>
  \<open>operator+\<close> and \<open>operator-\<close> take a \<open>const Quantity<UnitType, ValueType>&\<close>. The
  constructor is explicit and the struct has no conversion function, so the argument
  binds only when it has this very type. Looking the operator up for \<open>a + b\<close> visits the
  classes associated with the operands' types, the exponent types among them, and
  instantiates them: an exponent type that is ill-formed makes the expression ill-formed,
  although the operator's body never computes with the exponents.
\<close>

definition operator_plus :: "'v::plus Quantity \<Rightarrow> 'v Quantity \<Rightarrow> compile_error + 'v Quantity" where
  "operator_plus this other =
     (if UnitType other = UnitType this \<and> ValueType other = ValueType this
      then (if Unit_well_formed (UnitType this)
            then Inr (Quantity (UnitType this) (ValueType this) (val this + val other))
            else Inl Ratio_ill_formed)
      else Inl No_matching_operator)"

definition operator_minus :: "'v::minus Quantity \<Rightarrow> 'v Quantity \<Rightarrow> compile_error + 'v Quantity" where
  "operator_minus this other =
     (if UnitType other = UnitType this \<and> ValueType other = ValueType this
      then (if Unit_well_formed (UnitType this)
            then Inr (Quantity (UnitType this) (ValueType this) (val this - val other))
            else Inl Ratio_ill_formed)
      else Inl No_matching_operator)"

text \<open>
  \<open>operator*\<close> and \<open>operator/\<close> are member templates over \<open>OtherUnitType\<close> taking a
  \<open>const Quantity<OtherUnitType, ValueType>&\<close>: deduction succeeds for every unit of the
  argument and fails when its scalar type is not \<open>ValueType\<close>. \<open>ResultUnit\<close> is computed
  axis by axis; an ill-formed exponent computation makes the whole expression ill-formed.
\<close>

definition ResultUnit ::
  "(ratio \<Rightarrow> ratio \<Rightarrow> compile_error + ratio) \<Rightarrow> Unit \<Rightarrow> Unit \<Rightarrow> compile_error + Unit" where
  "ResultUnit f u other =
     (case f (LengthRatio u) (LengthRatio other) of Inl e \<Rightarrow> Inl e | Inr l \<Rightarrow>
     (case f (MassRatio u) (MassRatio other) of Inl e \<Rightarrow> Inl e | Inr m \<Rightarrow>
     (case f (TimeRatio u) (TimeRatio other) of Inl e \<Rightarrow> Inl e | Inr t \<Rightarrow>
     (case f (CurrentRatio u) (CurrentRatio other) of Inl e \<Rightarrow> Inl e | Inr c \<Rightarrow>
        Inr \<lparr>LengthRatio = l, MassRatio = m, TimeRatio = t, CurrentRatio = c\<rparr>))))"

definition operator_times :: "'v::times Quantity \<Rightarrow> 'v Quantity \<Rightarrow> compile_error + 'v Quantity" where
  "operator_times this other =
     (if ValueType other = ValueType this
      then (case ResultUnit ratio_add_type (UnitType this) (UnitType other) of
              Inl e \<Rightarrow> Inl e
            | Inr u \<Rightarrow> Inr (Quantity u (ValueType this) (val this * val other)))
      else Inl No_matching_operator)"

definition operator_divide :: "'v::inverse Quantity \<Rightarrow> 'v Quantity \<Rightarrow> compile_error + 'v Quantity" where
  "operator_divide this other =
     (if ValueType other = ValueType this
      then (case ResultUnit ratio_subtract_type (UnitType this) (UnitType other) of
              Inl e \<Rightarrow> Inl e
            | Inr u \<Rightarrow> Inr (Quantity u (ValueType this) (val this / val other)))
      else Inl No_matching_operator)"

text \<open>
  The struct declares these four operators and no other, and the file declares no
  non-member operator. An expression \<open>a op x\<close> with a quantity on the left is resolved
  among the members of \<open>a\<close>'s class; \<open>x\<close> is another quantity or a plain scalar. A plain
  scalar never binds to a parameter of quantity type: the converting constructor is
  explicit, and for the two member templates deduction fails.
\<close>

datatype binary_operator =
  Op_plus | Op_minus | Op_times | Op_divide | Op_eq | Op_ne | Op_lt | Op_gt | Op_le | Op_ge

datatype 'v operand = Quantity_operand "'v Quantity" | Scalar_operand value_type 'v

fun binary_expression ::
  "binary_operator \<Rightarrow> 'v::{plus,minus,times,inverse} Quantity \<Rightarrow> 'v operand
     \<Rightarrow> compile_error + 'v Quantity" where
  "binary_expression Op_plus a (Quantity_operand b) = operator_plus a b"
| "binary_expression Op_minus a (Quantity_operand b) = operator_minus a b"
| "binary_expression Op_times a (Quantity_operand b) = operator_times a b"
| "binary_expression Op_divide a (Quantity_operand b) = operator_divide a b"
| "binary_expression _ _ _ = Inl No_matching_operator"

text \<open>
  \<open>s op a\<close> with a plain scalar on the left: member operators are not candidates (the
  left operand is no class object), there is no non-member operator, and a quantity
  converts to no built-in type.
\<close>

definition scalar_left_expression ::
  "binary_operator \<Rightarrow> value_type \<Rightarrow> 'v \<Rightarrow> 'v Quantity \<Rightarrow> compile_error + 'v Quantity" where
  "scalar_left_expression opr t s a = Inl No_matching_operator"

text \<open>\<open>-a\<close> and \<open>+a\<close>: the struct has no unary operator member.\<close>

datatype unary_operator = Op_negate | Op_unary_plus

definition unary_expression ::
  "unary_operator \<Rightarrow> 'v Quantity \<Rightarrow> compile_error + 'v Quantity" where
  "unary_expression opr a = Inl No_matching_operator"

text \<open>
  The quantities that \<open>main\<close> constructs (\<open>ValueType\<close> defaults to \<open>double\<close>). Their
  scalars, and the sums, products and quotients computed from them below, are small
  integers: binary floating point represents them exactly and computes them without
  rounding, so that the real numbers used here are the values of the \<open>double\<close>s.
\<close>

definition length1 :: "real Quantity" where
  "length1 = Quantity Meter Double 10"

definition length2 :: "real Quantity" where
  "length2 = Quantity Meter Double 5"

definition time1 :: "real Quantity" where
  "time1 = Quantity Second Double 2"

definition mass1 :: "real Quantity" where
  "mass1 = Quantity Kilogram Double 70"

subsection \<open>What the types mean: dimension vectors\<close>

text \<open>
  The rational number an exponent type denotes, and the dimension vector of a unit in
  the order length, mass, time, current.
\<close>

fun ratio_value :: "ratio \<Rightarrow> rat" where
  "ratio_value (Ratio n d) = Fract n d"

definition dimension_vector :: "Unit \<Rightarrow> rat list" where
  "dimension_vector u =
     [ratio_value (LengthRatio u), ratio_value (MassRatio u), ratio_value (TimeRatio u),
      ratio_value (CurrentRatio u)]"

text \<open>The specification's algebra on dimension vectors: per axis, sum and difference.\<close>

definition mul_spec :: "rat list \<Rightarrow> rat list \<Rightarrow> rat list" where
  "mul_spec A B = map2 (+) A B"

definition div_spec :: "rat list \<Rightarrow> rat list \<Rightarrow> rat list" where
  "div_spec A B = map2 (-) A B"

text \<open>Canonical form: lowest terms with a positive denominator.\<close>

fun ratio_canonical :: "ratio \<Rightarrow> bool" where
  "ratio_canonical (Ratio n d) = (0 < d \<and> gcd n d = 1)"

definition Unit_canonical :: "Unit \<Rightarrow> bool" where
  "Unit_canonical u =
     (ratio_canonical (LengthRatio u) \<and> ratio_canonical (MassRatio u) \<and>
      ratio_canonical (TimeRatio u) \<and> ratio_canonical (CurrentRatio u))"

text \<open>
  No overflow in the exponent arithmetic of one axis: the unreduced numerator and
  denominator of the sum (\<open>sg = 1\<close>) or difference (\<open>sg = - 1\<close>) are representable.
\<close>

definition ratio_in_range :: "int \<Rightarrow> ratio \<Rightarrow> ratio \<Rightarrow> bool" where
  "ratio_in_range sg r1 r2 =
     (ratio_well_formed r1 \<and> ratio_well_formed r2 \<and>
      \<bar>ratio_num r1 * ratio_den r2 + sg * (ratio_num r2 * ratio_den r1)\<bar> \<le> INTMAX_MAX \<and>
      ratio_den r1 * ratio_den r2 \<le> INTMAX_MAX)"

definition Unit_in_range :: "int \<Rightarrow> Unit \<Rightarrow> Unit \<Rightarrow> bool" where
  "Unit_in_range sg u other =
     (ratio_in_range sg (LengthRatio u) (LengthRatio other) \<and>
      ratio_in_range sg (MassRatio u) (MassRatio other) \<and>
      ratio_in_range sg (TimeRatio u) (TimeRatio other) \<and>
      ratio_in_range sg (CurrentRatio u) (CurrentRatio other))"

text \<open>
  Further units for the examples: a half power of length written as \<open>std::ratio<2, 4>\<close>
  and as \<open>std::ratio<1, 2>\<close>, a length exponent with denominator zero, and the largest
  and the smallest exponent that \<open>std::ratio\<close> can carry.
\<close>

definition Unit_2_4 :: Unit where
  "Unit_2_4 = \<lparr>LengthRatio = Ratio 2 4, MassRatio = Exponent 0, TimeRatio = Exponent 0,
               CurrentRatio = Exponent 0\<rparr>"

definition Unit_1_2 :: Unit where
  "Unit_1_2 = \<lparr>LengthRatio = Ratio 1 2, MassRatio = Exponent 0, TimeRatio = Exponent 0,
               CurrentRatio = Exponent 0\<rparr>"

definition Unit_1_0 :: Unit where
  "Unit_1_0 = \<lparr>LengthRatio = Ratio 1 0, MassRatio = Exponent 0, TimeRatio = Exponent 0,
               CurrentRatio = Exponent 0\<rparr>"

definition Unit_max :: Unit where
  "Unit_max = \<lparr>LengthRatio = Ratio 9223372036854775807 1, MassRatio = Exponent 0,
               TimeRatio = Exponent 0, CurrentRatio = Exponent 0\<rparr>"

definition Unit_min :: Unit where
  "Unit_min = \<lparr>LengthRatio = Ratio (- 9223372036854775807) 1, MassRatio = Exponent 0,
               TimeRatio = Exponent 0, CurrentRatio = Exponent 0\<rparr>"

text \<open>
  \<open>ratio_add\<close> and \<open>ratio_subtract\<close> differ in one sign. The proofs treat both at once
  through the following two functions, which are shown equal to them.
\<close>

definition ratio_combine :: "int \<Rightarrow> ratio \<Rightarrow> ratio \<Rightarrow> compile_error + ratio" where
  "ratio_combine sg r1 r2 =
     (if ratio_well_formed r1 \<and> ratio_well_formed r2
      then ratio_result (ratio_num r1 * ratio_den r2 + sg * (ratio_num r2 * ratio_den r1))
             (ratio_den r1 * ratio_den r2)
      else Inl Ratio_ill_formed)"

definition ratio_combine_type :: "int \<Rightarrow> ratio \<Rightarrow> ratio \<Rightarrow> compile_error + ratio" where
  "ratio_combine_type sg r1 r2 =
     (case ratio_combine sg r1 r2 of Inl e \<Rightarrow> Inl e | Inr r \<Rightarrow> Inr (ratio_type r))"

section \<open>The plugin loader (cpp\_guide\_a9aafb.cpp)\<close>

text \<open>
  \<open>main\<close> talks to the operating system and to the plugin. Their answers are the
  parameter \<open>sys\<close>; what \<open>main\<close> does is the list of its calls and outputs, in order,
  next to its return value. Both preprocessor branches are modelled: \<open>Win32\<close> is the
  branch with \<open>_WIN32\<close> defined.
\<close>

datatype platform = Win32 | Posix

type_synonym handle = nat
type_synonym address = nat

record system =
  load_library :: "string \<Rightarrow> handle option"
    \<comment> \<open>\<open>LoadLibraryA\<close> / \<open>dlopen(..., RTLD_LAZY)\<close>; \<open>None\<close> is the null handle\<close>
  get_symbol :: "handle \<Rightarrow> string \<Rightarrow> address option"
    \<comment> \<open>\<open>GetProcAddress\<close> / \<open>dlsym\<close>; \<open>None\<close> is the null pointer\<close>
  free_library :: "handle \<Rightarrow> bool"
    \<comment> \<open>\<open>FreeLibrary\<close> returns non-zero / \<open>dlclose\<close> returns zero\<close>
  GetLastError :: int
  dlerror :: string
  call_GetPluginNameFunc :: "address \<Rightarrow> string option"
    \<comment> \<open>the call through the pointer; \<open>None\<close> when the plugin's code does not return\<close>
  call_PerformOperationFunc :: "address \<Rightarrow> int \<Rightarrow> int \<Rightarrow> int option"

datatype piece = Text string | Number int

datatype event =
    Stdout "piece list"
  | Stderr "piece list"
  | Open_library string             \<comment> \<open>\<open>LoadLibraryA\<close> / \<open>dlopen\<close>\<close>
  | Lookup_symbol handle string     \<comment> \<open>\<open>GetProcAddress\<close> / \<open>dlsym\<close>\<close>
  | Invoke address "int list"       \<comment> \<open>a call through a function pointer of the plugin\<close>
  | Close_library handle            \<comment> \<open>\<open>FreeLibrary\<close> / \<open>dlclose\<close>\<close>

fun pluginFilename :: "platform \<Rightarrow> string" where
  "pluginFilename Win32 = ''BasicPlugin.dll''"
| "pluginFilename Posix = ''./libBasicPlugin.so''"

fun load_error :: "platform \<Rightarrow> system \<Rightarrow> event" where
  "load_error Win32 sys =
     Stderr [Text ''Error: Could not load plugin library (code: '', Number (GetLastError sys),
             Text '')'']"
| "load_error Posix sys =
     Stderr [Text ''Error: Could not load plugin library: '', Text (dlerror sys)]"

fun free_warning :: "platform \<Rightarrow> system \<Rightarrow> event" where
  "free_warning Win32 sys =
     Stderr [Text ''Warning: Could not free plugin library (code: '', Number (GetLastError sys),
             Text '')'']"
| "free_warning Posix sys =
     Stderr [Text ''Warning: Could not close plugin library: '', Text (dlerror sys)]"

text \<open>
  The result is \<open>None\<close> when a call into the plugin does not return, and otherwise the
  value \<open>main\<close> returns with the events up to there. The apostrophe of the messages is
  the character \<open>0x27\<close>.
\<close>

definition main :: "platform \<Rightarrow> system \<Rightarrow> (int \<times> event list) option" where
  "main p sys =
     (let t0 = [Stdout [Text ''--- Dynamic Plugin Loader ---''],
                Stdout [Text ''Attempting to load plugin: '', Text (pluginFilename p)],
                Open_library (pluginFilename p)]
      in case load_library sys (pluginFilename p) of
        None \<Rightarrow> Some (1, t0 @ [load_error p sys])
      | Some pluginHandle \<Rightarrow>
     (let t1 = t0 @ [Stdout [Text ''Plugin library loaded successfully.''],
                     Lookup_symbol pluginHandle ''GetPluginName'']
      in case get_symbol sys pluginHandle ''GetPluginName'' of
        None \<Rightarrow>
          Some (1, t1 @ [Stderr [Text ''Error: Could not find function '', Text [CHR 0x27],
                                 Text ''GetPluginName'', Text [CHR 0x27], Text '' in plugin.''],
                         Close_library pluginHandle])
      | Some getPluginName \<Rightarrow>
     (let t2 = t1 @ [Lookup_symbol pluginHandle ''PerformAddition'']
      in case get_symbol sys pluginHandle ''PerformAddition'' of
        None \<Rightarrow>
          Some (1, t2 @ [Stderr [Text ''Error: Could not find function '', Text [CHR 0x27],
                                 Text ''PerformAddition'', Text [CHR 0x27], Text '' in plugin.''],
                         Close_library pluginHandle])
      | Some performAddition \<Rightarrow>
     (let t3 = t2 @ [Stdout [Text ''Plugin functions found successfully.''],
                     Invoke getPluginName []]
      in case call_GetPluginNameFunc sys getPluginName of
        None \<Rightarrow> None
      | Some pluginName \<Rightarrow>
     (let t4 = t3 @ [Stdout [Text ''Plugin says: Hello from '', Text [CHR 0x27], Text pluginName,
                             Text [CHR 0x27], Text ''!''],
                     Invoke performAddition [10, 25]]
      in case call_PerformOperationFunc sys performAddition 10 25 of
        None \<Rightarrow> None
      | Some result \<Rightarrow>
     (let t5 = t4 @ [Stdout [Text ''Plugin performed 10 + 25 = '', Number result],
                     Close_library pluginHandle];
          t6 = (if free_library sys pluginHandle then t5 else t5 @ [free_warning p sys])
      in Some (0, t6 @ [Stdout [Text ''Plugin library unloaded.''],
                        Stdout [Text ''--- End of Tutorial ---'']])))))))"

text \<open>The events that touch the library, and what it is for a handle to be released.\<close>

fun uses_library :: "event \<Rightarrow> bool" where
  "uses_library (Stdout _) = False"
| "uses_library (Stderr _) = False"
| "uses_library _ = True"

definition released :: "handle \<Rightarrow> event list \<Rightarrow> bool" where
  "released h tr =
     (count_list tr (Close_library h) = 1 \<and>
      last (filter uses_library tr) = Close_library h)"

text \<open>
  Three systems for the examples. \<open>basic_plugin\<close> is the plugin that the comment at the
  end of the source file gives (\<open>BasicPlugin.cpp\<close>): its name is
  \<open>Basic Cpp Plugin v1.0\<close> and \<open>PerformAddition\<close> returns the sum. The other two lack
  both symbols and the second symbol.
\<close>

definition basic_plugin :: system where
  "basic_plugin =
     \<lparr>load_library = (\<lambda>file. Some 1),
      get_symbol = (\<lambda>h name. if name = ''GetPluginName'' then Some 100
                               else if name = ''PerformAddition'' then Some 200 else None),
      free_library = (\<lambda>h. True),
      GetLastError = 0,
      dlerror = [],
      call_GetPluginNameFunc = (\<lambda>f. Some ''Basic Cpp Plugin v1.0''),
      call_PerformOperationFunc = (\<lambda>f a b. Some (a + b))\<rparr>"

definition no_symbols :: system where
  "no_symbols = basic_plugin\<lparr>get_symbol := (\<lambda>h name. None)\<rparr>"

definition name_only :: system where
  "name_only = basic_plugin
     \<lparr>get_symbol := (\<lambda>h name. if name = ''GetPluginName'' then Some 100 else None)\<rparr>"

section \<open>Properties of the exponent arithmetic\<close>


lemma ratio_decompose:
  assumes "d \<noteq> 0"
  obtains a b g where "n = a * g" "d = b * g" "0 < g" "coprime a b" "b \<noteq> 0"
    "ratio_num (Ratio n d) = sgn b * a" "ratio_den (Ratio n d) = \<bar>b\<bar>"
proof -
  define g where "g = gcd n d"
  have gpos: "0 < g" using assms by (simp add: g_def)
  obtain a b where ab: "n = a * g" "d = b * g" "coprime a b"
    using gcd_coprime_exists [of n d] assms unfolding g_def by auto
  have b0: "b \<noteq> 0" using ab assms by auto
  have absn: "\<bar>n\<bar> div g = \<bar>a\<bar>" using gpos ab by (simp add: abs_mult)
  have absd: "\<bar>d\<bar> div g = \<bar>b\<bar>" using gpos ab by (simp add: abs_mult)
  have sn: "sgn n = sgn a" using gpos ab by (simp add: sgn_mult)
  have sd: "sgn d = sgn b" using gpos ab by (simp add: sgn_mult)
  have "sgn a * sgn b * \<bar>a\<bar> = sgn b * (sgn a * \<bar>a\<bar>)" by simp
  also have "\<dots> = sgn b * a" by (simp only: sgn_mult_abs)
  finally have num: "ratio_num (Ratio n d) = sgn b * a"
    using absn sn sd by (simp add: g_def)
  have den: "ratio_den (Ratio n d) = \<bar>b\<bar>"
    using absd by (simp add: g_def)
  show thesis using that [OF ab(1) ab(2) gpos ab(3) b0 num den] .
qed

lemma ratio_den_pos: "d \<noteq> 0 \<Longrightarrow> 0 < ratio_den (Ratio n d)"
  by (erule ratio_decompose [of d n]) simp

lemma ratio_coprime: "d \<noteq> 0 \<Longrightarrow> coprime (ratio_num (Ratio n d)) (ratio_den (Ratio n d))"
  by (erule ratio_decompose [of d n]) (auto simp: sgn_if)

lemma ratio_Fract: "d \<noteq> 0 \<Longrightarrow> Fract (ratio_num (Ratio n d)) (ratio_den (Ratio n d)) = Fract n d"
  by (erule ratio_decompose [of d n]) (auto simp: sgn_if eq_rat abs_if)

lemma abs_le_mult_pos: "0 < g \<Longrightarrow> \<bar>a\<bar> \<le> \<bar>a * g\<bar>" for a g :: int
proof -
  assume "0 < g"
  then have "\<bar>a\<bar> * 1 \<le> \<bar>a\<bar> * g" by (intro mult_left_mono) auto
  then show ?thesis using \<open>0 < g\<close> by (simp add: abs_mult)
qed

lemma ratio_num_le:
  assumes "d \<noteq> 0"
  shows "\<bar>ratio_num (Ratio n d)\<bar> \<le> \<bar>n\<bar>"
proof -
  obtain a b g where f: "n = a * g" "0 < g" "b \<noteq> 0" "ratio_num (Ratio n d) = sgn b * a"
    using assms by (rule ratio_decompose [of d n]) blast
  have "\<bar>sgn b * a\<bar> = \<bar>a\<bar>" using f(3) by (simp add: abs_mult)
  then show ?thesis using abs_le_mult_pos [OF f(2), of a] f(1,4) by simp
qed

lemma ratio_den_le:
  assumes "d \<noteq> 0"
  shows "ratio_den (Ratio n d) \<le> \<bar>d\<bar>"
proof -
  obtain a :: int and b g where f: "d = b * g" "0 < g" "ratio_den (Ratio n d) = \<bar>b\<bar>"
    using assms by (rule ratio_decompose [of d n]) blast
  show ?thesis using abs_le_mult_pos [OF f(2), of b] f(1,3) by simp
qed

text \<open>On a well-formed ratio the members are its value in canonical form.\<close>

lemma ratio_type_canonical:
  "ratio_well_formed r \<Longrightarrow> ratio_canonical (ratio_type r)"
  by (cases r) (simp add: ratio_type_def ratio_den_pos ratio_coprime coprime_iff_gcd_eq_1 [symmetric] del: ratio_num.simps ratio_den.simps)

lemma ratio_type_value:
  "ratio_well_formed r \<Longrightarrow> ratio_value (ratio_type r) = ratio_value r"
  by (cases r) (simp add: ratio_type_def ratio_Fract del: ratio_num.simps ratio_den.simps)

lemma ratio_canonical_members:
  assumes "ratio_canonical (Ratio n d)"
  shows "ratio_num (Ratio n d) = n" "ratio_den (Ratio n d) = d"
  using assms by (simp_all add: sgn_mult_abs abs_mult_sgn)

lemma ratio_type_idem: "ratio_canonical r \<Longrightarrow> ratio_type r = r"
  by (cases r) (simp add: ratio_type_def ratio_canonical_members del: ratio_num.simps ratio_den.simps ratio_canonical.simps)

lemma ratio_canonical_eq_iff:
  assumes "ratio_canonical r1" "ratio_canonical r2"
  shows "ratio_value r1 = ratio_value r2 \<longleftrightarrow> r1 = r2"
proof
  assume eq: "ratio_value r1 = ratio_value r2"
  obtain n1 d1 n2 d2 where r: "r1 = Ratio n1 d1" "r2 = Ratio n2 d2"
    by (cases r1, cases r2) auto
  from assms r have c: "0 < d1" "coprime n1 d1" "0 < d2" "coprime n2 d2"
    by (simp_all add: coprime_iff_gcd_eq_1)
  from eq r have "quotient_of (Fract n1 d1) = quotient_of (Fract n2 d2)" by simp
  then have "(n1, d1) = (n2, d2)"
    using c by (simp add: quotient_of_Fract)
  then show "r1 = r2" using r by simp
qed simp


lemma ratio_well_formed_members:
  assumes "ratio_well_formed r"
  shows "0 < ratio_den r" "Fract (ratio_num r) (ratio_den r) = ratio_value r"
    "\<bar>ratio_num r\<bar> \<le> INTMAX_MAX" "ratio_den r \<le> INTMAX_MAX"
proof -
  obtain n d where r: "r = Ratio n d" by (cases r)
  with assms have d: "d \<noteq> 0" and b: "\<bar>n\<bar> \<le> INTMAX_MAX" "\<bar>d\<bar> \<le> INTMAX_MAX" by simp_all
  show "0 < ratio_den r" unfolding r using d by (rule ratio_den_pos)
  show "Fract (ratio_num r) (ratio_den r) = ratio_value r"
    unfolding r using ratio_Fract [OF d, of n] by simp
  show "\<bar>ratio_num r\<bar> \<le> INTMAX_MAX"
    unfolding r using ratio_num_le [OF d, of n] b(1) by linarith
  show "ratio_den r \<le> INTMAX_MAX"
    unfolding r using ratio_den_le [OF d, of n] b(2) by linarith
qed

lemma ratio_result_Inr:
  assumes "ratio_result x y = Inr r" "y \<noteq> 0"
  shows "ratio_canonical r" "ratio_value r = Fract x y"
proof -
  let ?u = "ratio_num (Ratio x y)" and ?v = "ratio_den (Ratio x y)"
  from assms(1) have r: "r = Ratio ?u ?v"
    by (simp add: ratio_result_def Let_def del: ratio_num.simps ratio_den.simps split: if_splits)
  show "ratio_canonical r"
    unfolding r using ratio_den_pos [OF assms(2), of x] ratio_coprime [OF assms(2), of x]
    by (simp add: coprime_iff_gcd_eq_1 del: ratio_num.simps ratio_den.simps)
  show "ratio_value r = Fract x y"
    unfolding r using ratio_Fract [OF assms(2), of x]
    by (simp del: ratio_num.simps ratio_den.simps)
qed

lemma ratio_result_in_range:
  assumes "y \<noteq> 0" "\<bar>x\<bar> \<le> INTMAX_MAX" "\<bar>y\<bar> \<le> INTMAX_MAX"
  shows "ratio_result x y = Inr (ratio_type (Ratio x y))"
proof -
  have "\<bar>ratio_num (Ratio x y)\<bar> \<le> INTMAX_MAX"
    using ratio_num_le [OF assms(1), of x] assms(2) by linarith
  moreover have "\<bar>ratio_den (Ratio x y)\<bar> \<le> INTMAX_MAX"
    using ratio_den_le [OF assms(1), of x] ratio_den_pos [OF assms(1), of x] assms(3) by linarith
  ultimately show ?thesis
    by (simp add: ratio_result_def ratio_type_def Let_def del: ratio_num.simps ratio_den.simps)
qed

lemma ratio_add_combine: "ratio_add = ratio_combine 1"
  by (intro ext) (simp add: ratio_add_def ratio_combine_def)

lemma ratio_subtract_combine: "ratio_subtract = ratio_combine (- 1)"
  by (intro ext) (simp add: ratio_subtract_def ratio_combine_def)

lemma ratio_combine_Inr:
  assumes "ratio_combine sg r1 r2 = Inr r"
  shows "ratio_canonical r" "ratio_value r = ratio_value r1 + of_int sg * ratio_value r2"
proof -
  from assms have wf: "ratio_well_formed r1" "ratio_well_formed r2"
    by (simp_all add: ratio_combine_def split: if_splits)
  let ?x = "ratio_num r1 * ratio_den r2 + sg * (ratio_num r2 * ratio_den r1)"
  let ?y = "ratio_den r1 * ratio_den r2"
  from assms wf have res: "ratio_result ?x ?y = Inr r" by (simp add: ratio_combine_def)
  note m1 = ratio_well_formed_members [OF wf(1)] and m2 = ratio_well_formed_members [OF wf(2)]
  have y: "?y \<noteq> 0" using m1(1) m2(1) by simp
  show "ratio_canonical r" using res y by (rule ratio_result_Inr)
  have "ratio_value r = Fract ?x ?y" using res y by (rule ratio_result_Inr)
  also have "\<dots> = Fract (ratio_num r1) (ratio_den r1) + Fract (sg * ratio_num r2) (ratio_den r2)"
    using m1(1) m2(1) by (simp add: mult.assoc)
  also have "Fract (sg * ratio_num r2) (ratio_den r2) = of_int sg * Fract (ratio_num r2) (ratio_den r2)"
    using m2(1) by (simp add: Fract_of_int_quotient)
  finally show "ratio_value r = ratio_value r1 + of_int sg * ratio_value r2"
    using m1(2) m2(2) by simp
qed


lemma ratio_combine_in_range:
  assumes "ratio_in_range sg r1 r2"
  shows "\<exists>r. ratio_combine sg r1 r2 = Inr r"
proof -
  from assms have wf: "ratio_well_formed r1" "ratio_well_formed r2"
    and x: "\<bar>ratio_num r1 * ratio_den r2 + sg * (ratio_num r2 * ratio_den r1)\<bar> \<le> INTMAX_MAX"
    and y: "ratio_den r1 * ratio_den r2 \<le> INTMAX_MAX"
    by (simp_all add: ratio_in_range_def)
  note m1 = ratio_well_formed_members [OF wf(1)] and m2 = ratio_well_formed_members [OF wf(2)]
  have ypos: "0 < ratio_den r1 * ratio_den r2" using m1(1) m2(1) by simp
  have y0: "ratio_den r1 * ratio_den r2 \<noteq> 0" using ypos by linarith
  have yb: "\<bar>ratio_den r1 * ratio_den r2\<bar> \<le> INTMAX_MAX" using ypos y by linarith
  from ratio_result_in_range [OF y0 x yb] wf show ?thesis
    by (simp add: ratio_combine_def)
qed

text \<open>The member \<open>type\<close> of a result is the result itself.\<close>

lemma ratio_add_type_combine: "ratio_add_type = ratio_combine_type 1"
  by (intro ext) (simp add: ratio_add_type_def ratio_combine_type_def ratio_add_combine)

lemma ratio_subtract_type_combine: "ratio_subtract_type = ratio_combine_type (- 1)"
  by (intro ext) (simp add: ratio_subtract_type_def ratio_combine_type_def ratio_subtract_combine)

lemma ratio_combine_type_eq: "ratio_combine_type sg r1 r2 = ratio_combine sg r1 r2"
proof (cases "ratio_combine sg r1 r2")
  case (Inl e)
  then show ?thesis by (simp add: ratio_combine_type_def)
next
  case (Inr r)
  then have "ratio_type r = r" by (intro ratio_type_idem ratio_combine_Inr(1))
  with Inr show ?thesis by (simp add: ratio_combine_type_def)
qed

lemma ratio_combine_commute: "ratio_combine 1 r1 r2 = ratio_combine 1 r2 r1"
  by (simp add: ratio_combine_def add.commute mult.commute conj_commute)

subsection \<open>The unit of a product and of a quotient\<close>

lemma ResultUnit_Inr_iff:
  "ResultUnit f u other = Inr r \<longleftrightarrow>
     f (LengthRatio u) (LengthRatio other) = Inr (LengthRatio r) \<and>
     f (MassRatio u) (MassRatio other) = Inr (MassRatio r) \<and>
     f (TimeRatio u) (TimeRatio other) = Inr (TimeRatio r) \<and>
     f (CurrentRatio u) (CurrentRatio other) = Inr (CurrentRatio r)"
  by (cases r) (auto simp: ResultUnit_def split: sum.splits)

lemma ResultUnit_combine_Inr:
  assumes "ResultUnit (ratio_combine_type sg) u other = Inr r"
  shows "Unit_canonical r"
    and "dimension_vector r =
      map2 (\<lambda>x y. x + of_int sg * y) (dimension_vector u) (dimension_vector other)"
proof -
  from assms have ax:
    "ratio_combine sg (LengthRatio u) (LengthRatio other) = Inr (LengthRatio r)"
    "ratio_combine sg (MassRatio u) (MassRatio other) = Inr (MassRatio r)"
    "ratio_combine sg (TimeRatio u) (TimeRatio other) = Inr (TimeRatio r)"
    "ratio_combine sg (CurrentRatio u) (CurrentRatio other) = Inr (CurrentRatio r)"
    by (simp_all add: ResultUnit_Inr_iff ratio_combine_type_eq)
  show "Unit_canonical r"
    unfolding Unit_canonical_def using ax by (blast intro: ratio_combine_Inr(1))
  show "dimension_vector r =
      map2 (\<lambda>x y. x + of_int sg * y) (dimension_vector u) (dimension_vector other)"
    by (simp add: dimension_vector_def ax [THEN ratio_combine_Inr(2)])
qed

lemma ResultUnit_combine_in_range:
  assumes "Unit_in_range sg u other"
  shows "\<exists>r. ResultUnit (ratio_combine_type sg) u other = Inr r"
proof -
  from assms obtain l m t c where
    "ratio_combine sg (LengthRatio u) (LengthRatio other) = Inr l"
    "ratio_combine sg (MassRatio u) (MassRatio other) = Inr m"
    "ratio_combine sg (TimeRatio u) (TimeRatio other) = Inr t"
    "ratio_combine sg (CurrentRatio u) (CurrentRatio other) = Inr c"
    unfolding Unit_in_range_def by (blast dest: ratio_combine_in_range)
  then show ?thesis
    by (simp add: ResultUnit_def ratio_combine_type_eq)
qed

lemma ResultUnit_commute:
  "ResultUnit (ratio_combine_type 1) u other = ResultUnit (ratio_combine_type 1) other u"
proof -
  have c: "ratio_combine_type 1 r1 r2 = ratio_combine_type 1 r2 r1" for r1 r2
    by (simp add: ratio_combine_type_eq ratio_combine_commute)
  have "ResultUnit f u other = ResultUnit f other u" if "\<And>r1 r2. f r1 r2 = f r2 r1" for f
    unfolding ResultUnit_def
    by (simp add: that [of "LengthRatio u"] that [of "MassRatio u"] that [of "TimeRatio u"]
        that [of "CurrentRatio u"] cong: sum.case_cong)
  from this [of "ratio_combine_type 1", OF c] show ?thesis .
qed

lemma Unit_canonical_eq_iff:
  assumes "Unit_canonical u" "Unit_canonical u'"
  shows "dimension_vector u = dimension_vector u' \<longleftrightarrow> u = u'"
proof
  assume "dimension_vector u = dimension_vector u'"
  then have "LengthRatio u = LengthRatio u'" "MassRatio u = MassRatio u'"
    "TimeRatio u = TimeRatio u'" "CurrentRatio u = CurrentRatio u'"
    using assms by (simp_all add: dimension_vector_def Unit_canonical_def ratio_canonical_eq_iff)
  then show "u = u'" by simp
qed simp




subsection \<open>The operators\<close>

lemma operator_times_Inr_iff:
  "operator_times a b = Inr c \<longleftrightarrow>
     ValueType b = ValueType a \<and>
     (\<exists>u. ResultUnit (ratio_combine_type 1) (UnitType a) (UnitType b) = Inr u \<and>
          c = Quantity u (ValueType a) (val a * val b))"
  by (auto simp: operator_times_def ratio_add_type_combine split: sum.splits)

lemma operator_divide_Inr_iff:
  "operator_divide a b = Inr c \<longleftrightarrow>
     ValueType b = ValueType a \<and>
     (\<exists>u. ResultUnit (ratio_combine_type (- 1)) (UnitType a) (UnitType b) = Inr u \<and>
          c = Quantity u (ValueType a) (val a / val b))"
  by (auto simp: operator_divide_def ratio_subtract_type_combine split: sum.splits)

lemma ratio_combine_error: "ratio_combine sg r1 r2 = Inl e \<Longrightarrow> e = Ratio_ill_formed"
  by (auto simp: ratio_combine_def ratio_result_def Let_def split: if_splits)

lemma ResultUnit_error:
  "ResultUnit (ratio_combine_type sg) u other = Inl e \<Longrightarrow> e = Ratio_ill_formed"
  by (auto simp: ResultUnit_def ratio_combine_type_eq split: sum.splits dest: ratio_combine_error)

lemma operator_times_mismatch_iff:
  "operator_times a b = Inl No_matching_operator \<longleftrightarrow> ValueType b \<noteq> ValueType a"
  by (auto simp: operator_times_def ratio_add_type_combine split: sum.splits dest: ResultUnit_error)

lemma operator_divide_mismatch_iff:
  "operator_divide a b = Inl No_matching_operator \<longleftrightarrow> ValueType b \<noteq> ValueType a"
  by (auto simp: operator_divide_def ratio_subtract_type_combine split: sum.splits dest: ResultUnit_error)

lemmas unit_defs = Meter_def Kilogram_def Second_def Ampere_def Velocity_def Acceleration_def
  Area_def Force_def Dimensionless_def Exponent_def

lemmas ratio_eval = ratio_add_type_def ratio_subtract_type_def ratio_add_def ratio_subtract_def
  ratio_result_def ratio_type_def INTMAX_MAX_def ResultUnit_def Let_def

lemma times_example: "operator_times length1 length2 = Inr (Quantity Area Double 50)"
  by (simp add: operator_times_def length1_def length2_def Quantity_def unit_defs ratio_eval)

lemma divide_example: "operator_divide length1 time1 = Inr (Quantity Velocity Double 5)"
  by (simp add: operator_divide_def length1_def time1_def Quantity_def unit_defs ratio_eval)

lemma named_units_well_formed:
  "Unit_well_formed Meter" "Unit_well_formed Kilogram" "Unit_well_formed Second"
  "Unit_well_formed Ampere" "Unit_well_formed Velocity" "Unit_well_formed Acceleration"
  "Unit_well_formed Area" "Unit_well_formed Force" "Unit_well_formed Dimensionless"
  by (simp_all add: Unit_well_formed_def unit_defs INTMAX_MAX_def)

lemma plus_example: "operator_plus length1 length2 = Inr (Quantity Meter Double 15)"
  by (simp add: operator_plus_def length1_def length2_def Quantity_def named_units_well_formed)

lemma plus_ill_formed_example:
  "operator_plus (Quantity Unit_1_0 Double (3::real)) (Quantity Unit_1_0 Double 4)
     = Inl Ratio_ill_formed"
  "operator_minus (Quantity Unit_1_0 Double (3::real)) (Quantity Unit_1_0 Double 4)
     = Inl Ratio_ill_formed"
  by (simp_all add: operator_plus_def operator_minus_def Quantity_def Unit_1_0_def
      Unit_well_formed_def)

lemma range_example: "Unit_in_range 1 Meter Meter" "Unit_in_range (- 1) Meter Second"
  by (simp_all add: Unit_in_range_def ratio_in_range_def unit_defs INTMAX_MAX_def)


lemma operator_times_result:
  assumes "operator_times a b = Inr c"
  shows "Unit_canonical (UnitType c)"
    and "dimension_vector (UnitType c) =
           mul_spec (dimension_vector (UnitType a)) (dimension_vector (UnitType b))"
    and "val c = val a * val b" and "ValueType b = ValueType a" and "ValueType c = ValueType a"
proof -
  from assms obtain u where u: "ResultUnit (ratio_combine_type 1) (UnitType a) (UnitType b) = Inr u"
    and c: "c = Quantity u (ValueType a) (val a * val b)" and t: "ValueType b = ValueType a"
    unfolding operator_times_Inr_iff by blast
  show "Unit_canonical (UnitType c)"
    using ResultUnit_combine_Inr(1) [OF u] by (simp add: c Quantity_def)
  show "dimension_vector (UnitType c) =
           mul_spec (dimension_vector (UnitType a)) (dimension_vector (UnitType b))"
    using ResultUnit_combine_Inr(2) [OF u] by (simp add: c Quantity_def mul_spec_def)
  show "val c = val a * val b" "ValueType b = ValueType a" "ValueType c = ValueType a"
    using t by (simp_all add: c Quantity_def)
qed

lemma operator_divide_result:
  assumes "operator_divide a b = Inr c"
  shows "Unit_canonical (UnitType c)"
    and "dimension_vector (UnitType c) =
           div_spec (dimension_vector (UnitType a)) (dimension_vector (UnitType b))"
    and "val c = val a / val b" and "ValueType b = ValueType a" and "ValueType c = ValueType a"
proof -
  from assms obtain u where u: "ResultUnit (ratio_combine_type (- 1)) (UnitType a) (UnitType b) = Inr u"
    and c: "c = Quantity u (ValueType a) (val a / val b)" and t: "ValueType b = ValueType a"
    unfolding operator_divide_Inr_iff by blast
  show "Unit_canonical (UnitType c)"
    using ResultUnit_combine_Inr(1) [OF u] by (simp add: c Quantity_def)
  show "dimension_vector (UnitType c) =
           div_spec (dimension_vector (UnitType a)) (dimension_vector (UnitType b))"
    using ResultUnit_combine_Inr(2) [OF u] by (simp add: c Quantity_def div_spec_def)
  show "val c = val a / val b" "ValueType b = ValueType a" "ValueType c = ValueType a"
    using t by (simp_all add: c Quantity_def)
qed

lemma operator_times_accepted:
  assumes "ValueType b = ValueType a" "Unit_in_range 1 (UnitType a) (UnitType b)"
  shows "\<exists>c. operator_times a b = Inr c"
  using ResultUnit_combine_in_range [OF assms(2)] assms(1)
  by (auto simp: operator_times_Inr_iff)

lemma operator_divide_accepted:
  assumes "ValueType b = ValueType a" "Unit_in_range (- 1) (UnitType a) (UnitType b)"
  shows "\<exists>c. operator_divide a b = Inr c"
  using ResultUnit_combine_in_range [OF assms(2)] assms(1)
  by (auto simp: operator_divide_Inr_iff)

lemma named_units_canonical:
  "Unit_canonical Meter" "Unit_canonical Kilogram" "Unit_canonical Second"
  "Unit_canonical Ampere" "Unit_canonical Velocity" "Unit_canonical Acceleration"
  "Unit_canonical Area" "Unit_canonical Force" "Unit_canonical Dimensionless"
  by (simp_all add: Unit_canonical_def unit_defs)


section \<open>Properties of the loader\<close>

lemma free_warning_no_use [simp]:
  "\<not> uses_library (free_warning p sys)" "free_warning p sys \<noteq> Close_library h"
  by (cases p; simp)+

lemma load_error_no_use [simp]:
  "\<not> uses_library (load_error p sys)" "load_error p sys \<noteq> Close_library h"
  by (cases p; simp)+

lemma main_first_symbol_missing:
  assumes "load_library sys (pluginFilename p) = Some h"
    and "get_symbol sys h ''GetPluginName'' = None"
  shows "\<exists>tr. main p sys = Some (1, tr) \<and> released h tr"
  using assms by (simp add: main_def released_def)

lemma main_second_symbol_missing:
  assumes "load_library sys (pluginFilename p) = Some h"
    and "get_symbol sys h ''GetPluginName'' = Some f"
    and "get_symbol sys h ''PerformAddition'' = None"
  shows "\<exists>tr. main p sys = Some (1, tr) \<and> released h tr"
  using assms by (simp add: main_def released_def)

lemma main_success:
  assumes "load_library sys (pluginFilename p) = Some h"
    and "get_symbol sys h ''GetPluginName'' = Some f"
    and "get_symbol sys h ''PerformAddition'' = Some g"
    and "call_GetPluginNameFunc sys f = Some name"
    and "call_PerformOperationFunc sys g 10 25 = Some r"
  shows "\<exists>tr. main p sys = Some (0, tr) \<and> released h tr"
  using assms by (simp add: main_def released_def Let_def)

lemma main_returns_released:
  assumes "load_library sys (pluginFilename p) = Some h"
    and "main p sys = Some (rc, tr)"
  shows "released h tr"
proof (cases "get_symbol sys h ''GetPluginName''")
  case None
  from main_first_symbol_missing [OF assms(1) None] assms(2) show ?thesis by auto
next
  case f: (Some f)
  show ?thesis
  proof (cases "get_symbol sys h ''PerformAddition''")
    case None
    from main_second_symbol_missing [OF assms(1) f None] assms(2) show ?thesis by auto
  next
    case g: (Some g)
    from assms f g obtain name where n: "call_GetPluginNameFunc sys f = Some name"
      by (cases "call_GetPluginNameFunc sys f") (simp_all add: main_def)
    from assms f g n obtain r where r: "call_PerformOperationFunc sys g 10 25 = Some r"
      by (cases "call_PerformOperationFunc sys g 10 25") (simp_all add: main_def)
    from main_success [OF assms(1) f g n r] assms(2) show ?thesis by auto
  qed
qed

lemma basic_plugin_run:
  "main Posix basic_plugin = Some (0,
     [Stdout [Text ''--- Dynamic Plugin Loader ---''],
      Stdout [Text ''Attempting to load plugin: '', Text ''./libBasicPlugin.so''],
      Open_library ''./libBasicPlugin.so'',
      Stdout [Text ''Plugin library loaded successfully.''],
      Lookup_symbol 1 ''GetPluginName'',
      Lookup_symbol 1 ''PerformAddition'',
      Stdout [Text ''Plugin functions found successfully.''],
      Invoke 100 [],
      Stdout [Text ''Plugin says: Hello from '', Text [CHR 0x27], Text ''Basic Cpp Plugin v1.0'',
              Text [CHR 0x27], Text ''!''],
      Invoke 200 [10, 25],
      Stdout [Text ''Plugin performed 10 + 25 = '', Number 35],
      Close_library 1,
      Stdout [Text ''Plugin library unloaded.''],
      Stdout [Text ''--- End of Tutorial ---'']])"
  by (simp add: main_def basic_plugin_def)

section \<open>The claims\<close>

text \<open>
  Claim C1, as the code has it. Between two quantities of one scalar type whose exponent
  types are well-formed, \<open>a + b\<close> is accepted exactly when the two unit types are
  identical, that is when every exponent is written with the same numerator and
  denominator. The result then has the operands' unit type and the sum of their scalars;
  adding the lengths 10.0 and 5.0 gives the length 15.0. Every pair with unequal dimension
  vectors is rejected. For operands whose exponents are, moreover, in lowest terms with a
  positive denominator (the named units and every result of \<open>*\<close> and \<open>/\<close>) being accepted
  is the same as having equal dimension vectors. With an exponent type that is ill-formed,
  such as \<open>std::ratio<1, 0>\<close>, the sum is rejected even between identical unit types.
\<close>

theorem addition_same_unit_type:
  fixes a b :: "'v::plus Quantity"
  shows
    "operator_plus a b =
       (if UnitType b = UnitType a \<and> ValueType b = ValueType a
        then (if Unit_well_formed (UnitType a)
              then Inr (Quantity (UnitType a) (ValueType a) (val a + val b))
              else Inl Ratio_ill_formed)
        else Inl No_matching_operator) \<and>
     (Unit_well_formed (UnitType a) \<and> ValueType b = ValueType a
        \<longrightarrow> (\<exists>c. operator_plus a b = Inr c) = (UnitType b = UnitType a)) \<and>
     (dimension_vector (UnitType b) \<noteq> dimension_vector (UnitType a)
        \<longrightarrow> operator_plus a b = Inl No_matching_operator) \<and>
     (Unit_well_formed (UnitType a) \<and> Unit_well_formed (UnitType b) \<and>
      Unit_canonical (UnitType a) \<and> Unit_canonical (UnitType b) \<and> ValueType b = ValueType a
        \<longrightarrow> (\<exists>c. operator_plus a b = Inr c) =
            (dimension_vector (UnitType b) = dimension_vector (UnitType a))) \<and>
     operator_plus length1 length2 = Inr (Quantity Meter Double 15) \<and>
     operator_plus (Quantity Unit_1_0 Double (3::real)) (Quantity Unit_1_0 Double 4)
       = Inl Ratio_ill_formed"
proof -
  have 1: "operator_plus a b =
       (if UnitType b = UnitType a \<and> ValueType b = ValueType a
        then (if Unit_well_formed (UnitType a)
              then Inr (Quantity (UnitType a) (ValueType a) (val a + val b))
              else Inl Ratio_ill_formed)
        else Inl No_matching_operator)"
    by (simp add: operator_plus_def)
  have 2: "(\<exists>c. operator_plus a b = Inr c) = (UnitType b = UnitType a)"
    if "Unit_well_formed (UnitType a)" "ValueType b = ValueType a"
    using that by (simp add: operator_plus_def)
  have 3: "operator_plus a b = Inl No_matching_operator"
    if "dimension_vector (UnitType b) \<noteq> dimension_vector (UnitType a)"
    using that by (auto simp: operator_plus_def)
  have 4: "(\<exists>c. operator_plus a b = Inr c) =
            (dimension_vector (UnitType b) = dimension_vector (UnitType a))"
    if "Unit_well_formed (UnitType a)" "Unit_canonical (UnitType a)"
      "Unit_canonical (UnitType b)" "ValueType b = ValueType a"
    using Unit_canonical_eq_iff [OF that(3) that(2)] that(1,4) by (simp add: operator_plus_def)
  from 1 2 3 4 plus_example plus_ill_formed_example(1) show ?thesis by blast
qed

text \<open>
  The hypotheses of C1 hold for the quantities of \<open>main\<close>: two lengths are added, a length
  and a time are not.
\<close>

theorem addition_same_unit_type_witness:
  "operator_plus length1 length2 = Inr (Quantity Meter Double 15) \<and>
   dimension_vector (UnitType time1) \<noteq> dimension_vector (UnitType length1) \<and>
   operator_plus length1 time1 = Inl No_matching_operator \<and>
   Unit_well_formed (UnitType length1) \<and> Unit_well_formed (UnitType length2) \<and>
   Unit_canonical (UnitType length1) \<and> Unit_canonical (UnitType length2) \<and>
   ValueType length2 = ValueType length1 \<and>
   UnitType length2 = UnitType length1 \<and>
   dimension_vector (UnitType length2) = dimension_vector (UnitType length1)"
proof -
  have d: "dimension_vector (UnitType time1) \<noteq> dimension_vector (UnitType length1)"
    by (simp add: time1_def length1_def Quantity_def dimension_vector_def unit_defs eq_rat)
  have c: "Unit_well_formed (UnitType length1)" "Unit_well_formed (UnitType length2)"
    "Unit_canonical (UnitType length1)" "Unit_canonical (UnitType length2)"
    "ValueType length2 = ValueType length1"
    by (simp_all add: length1_def length2_def Quantity_def named_units_canonical
        named_units_well_formed)
  note t = addition_same_unit_type [where a = length1 and b = length2]
  from addition_same_unit_type [where a = length1 and b = time1] d
  have r: "operator_plus length1 time1 = Inl No_matching_operator" by blast
  from t have e: "operator_plus length1 length2 = Inr (Quantity Meter Double 15)" by blast
  from t c e have u: "UnitType length2 = UnitType length1" by blast
  from t c e have "dimension_vector (UnitType length2) = dimension_vector (UnitType length1)"
    by blast
  with d c r e u show ?thesis by blast
qed

text \<open>
  C1 as it is written fails: two dimension vectors are equal when their exponents are equal
  as rationals, yet a half power of length written \<open>2/4\<close> is not added to one written
  \<open>1/2\<close>, since \<open>Unit\<close> keeps the exponent types as they are given and \<open>operator+\<close>
  wants the very same unit type. Both units are well-formed.
\<close>

theorem addition_counterexample:
  "Unit_well_formed Unit_2_4 \<and> Unit_well_formed Unit_1_2 \<and>
   dimension_vector (UnitType (Quantity Unit_2_4 Double (10::real))) =
     dimension_vector (UnitType (Quantity Unit_1_2 Double (5::real))) \<and>
   ValueType (Quantity Unit_2_4 Double (10::real)) = ValueType (Quantity Unit_1_2 Double (5::real)) \<and>
   operator_plus (Quantity Unit_2_4 Double (10::real)) (Quantity Unit_1_2 Double 5)
     = Inl No_matching_operator"
  by (simp add: operator_plus_def Quantity_def Unit_2_4_def Unit_1_2_def dimension_vector_def
      eq_rat Exponent_def Unit_well_formed_def INTMAX_MAX_def)

text \<open>
  Claim C2, as the code has it. \<open>a * b\<close> is never rejected for a mismatch of dimensions:
  between two quantities of one scalar type it is accepted whatever the two units are, as
  long as the sum of the exponents can be computed on every axis without leaving
  \<open>intmax_t\<close>. Whenever it is accepted, the dimension vector of the result is the per-axis
  sum of the operands' vectors and its scalar is the product of their scalars; the lengths
  10.0 and 5.0 give the area 50.0.
\<close>

theorem multiplication_adds_exponents:
  fixes a b :: "'v::times Quantity"
  shows
    "(ValueType b = ValueType a \<and> Unit_in_range 1 (UnitType a) (UnitType b)
        \<longrightarrow> (\<exists>c. operator_times a b = Inr c)) \<and>
     (\<forall>c. operator_times a b = Inr c \<longrightarrow>
        dimension_vector (UnitType c) =
          mul_spec (dimension_vector (UnitType a)) (dimension_vector (UnitType b)) \<and>
        val c = val a * val b) \<and>
     (operator_times a b = Inl No_matching_operator \<longleftrightarrow> ValueType b \<noteq> ValueType a) \<and>
     operator_times length1 length2 = Inr (Quantity Area Double 50)"
  using operator_times_accepted [of b a] operator_times_result(2,3) [of a b]
    operator_times_mismatch_iff [of a b] times_example
  by blast

text \<open>The hypotheses of C2 hold for the two lengths of \<open>main\<close>.\<close>

theorem multiplication_adds_exponents_witness:
  "ValueType length2 = ValueType length1 \<and>
   Unit_in_range 1 (UnitType length1) (UnitType length2) \<and>
   operator_times length1 length2 = Inr (Quantity Area Double 50) \<and>
   dimension_vector Area = mul_spec (dimension_vector Meter) (dimension_vector Meter) \<and>
   val (Quantity Area Double (50::real)) = val length1 * val length2"
proof -
  have h: "ValueType length2 = ValueType length1"
    "Unit_in_range 1 (UnitType length1) (UnitType length2)"
    using range_example(1) by (simp_all add: length1_def length2_def Quantity_def)
  note t = multiplication_adds_exponents [where a = length1 and b = length2]
  from t have e: "operator_times length1 length2 = Inr (Quantity Area Double 50)" by blast
  with t have "dimension_vector (UnitType (Quantity Area Double (50::real))) =
      mul_spec (dimension_vector (UnitType length1)) (dimension_vector (UnitType length2))"
    and v: "val (Quantity Area Double (50::real)) = val length1 * val length2" by blast+
  then have "dimension_vector Area = mul_spec (dimension_vector Meter) (dimension_vector Meter)"
    by (simp add: length1_def length2_def Quantity_def)
  with h e v show ?thesis by blast
qed

text \<open>
  C2 as it is written fails: not every pair of quantities can be multiplied. With the
  length exponent \<open>INTMAX_MAX\<close> on the left and a length on the right,
  \<open>std::ratio_add\<close> overflows and the expression is ill-formed. Both units are well-formed
  and in canonical form.
\<close>

theorem multiplication_counterexample:
  "Unit_well_formed Unit_max \<and> Unit_canonical Unit_max \<and>
   ValueType length1 = ValueType (Quantity Unit_max Double (1::real)) \<and>
   operator_times (Quantity Unit_max Double (1::real)) length1 = Inl Ratio_ill_formed"
  by (simp add: Unit_well_formed_def Unit_canonical_def Unit_max_def operator_times_def
      length1_def Quantity_def unit_defs ratio_eval)

text \<open>
  Claim C3, as the code has it. \<open>a / b\<close> is never rejected for a mismatch of dimensions:
  between two quantities of one scalar type it is accepted whatever the two units are, as
  long as the difference of the exponents can be computed on every axis without leaving
  \<open>intmax_t\<close>. Whenever it is accepted, the dimension vector of the result is the per-axis
  difference and its scalar is the quotient of the operands' scalars, by the scalar type's
  own division: the divisor's scalar is never looked at, so that a length divided by a
  time of zero is a velocity whose scalar is whatever that division yields. The length 10.0
  divided by the time 2.0 is the velocity 5.0.
\<close>

theorem division_subtracts_exponents:
  fixes a b :: "'v::{inverse,zero} Quantity"
  shows
    "(ValueType b = ValueType a \<and> Unit_in_range (- 1) (UnitType a) (UnitType b)
        \<longrightarrow> (\<exists>c. operator_divide a b = Inr c)) \<and>
     (\<forall>c. operator_divide a b = Inr c \<longrightarrow>
        dimension_vector (UnitType c) =
          div_spec (dimension_vector (UnitType a)) (dimension_vector (UnitType b)) \<and>
        val c = val a / val b) \<and>
     (operator_divide a b = Inl No_matching_operator \<longleftrightarrow> ValueType b \<noteq> ValueType a) \<and>
     operator_divide (Quantity Meter Double (val a)) (Quantity Second Double 0)
       = Inr (Quantity Velocity Double (val a / 0)) \<and>
     operator_divide length1 time1 = Inr (Quantity Velocity Double 5)"
proof -
  have z: "operator_divide (Quantity Meter Double (val a)) (Quantity Second Double 0)
       = Inr (Quantity Velocity Double (val a / 0))"
    by (simp add: operator_divide_def Quantity_def unit_defs ratio_eval)
  show ?thesis
    using operator_divide_accepted [of b a] operator_divide_result(2,3) [of a b]
      operator_divide_mismatch_iff [of a b] divide_example z
    by blast
qed

text \<open>The hypotheses of C3 hold for the length and the time of \<open>main\<close>.\<close>

theorem division_subtracts_exponents_witness:
  "ValueType time1 = ValueType length1 \<and>
   Unit_in_range (- 1) (UnitType length1) (UnitType time1) \<and>
   operator_divide length1 time1 = Inr (Quantity Velocity Double 5) \<and>
   dimension_vector Velocity = div_spec (dimension_vector Meter) (dimension_vector Second) \<and>
   val (Quantity Velocity Double (5::real)) = val length1 / val time1"
proof -
  have h: "ValueType time1 = ValueType length1"
    "Unit_in_range (- 1) (UnitType length1) (UnitType time1)"
    using range_example(2) by (simp_all add: length1_def time1_def Quantity_def)
  note t = division_subtracts_exponents [where a = length1 and b = time1]
  from t have e: "operator_divide length1 time1 = Inr (Quantity Velocity Double 5)" by blast
  with t have "dimension_vector (UnitType (Quantity Velocity Double (5::real))) =
      div_spec (dimension_vector (UnitType length1)) (dimension_vector (UnitType time1))"
    and v: "val (Quantity Velocity Double (5::real)) = val length1 / val time1" by blast+
  then have "dimension_vector Velocity = div_spec (dimension_vector Meter) (dimension_vector Second)"
    by (simp add: length1_def time1_def Quantity_def)
  with h e v show ?thesis by blast
qed

text \<open>
  C3 as it is written fails: not every pair of quantities can be divided. Dividing a length
  by a quantity whose length exponent is \<open>- INTMAX_MAX\<close> overflows in
  \<open>std::ratio_subtract\<close>.
\<close>

theorem division_counterexample:
  "Unit_well_formed Unit_min \<and> Unit_canonical Unit_min \<and>
   ValueType length1 = ValueType (Quantity Unit_min Double (1::real)) \<and>
   operator_divide length1 (Quantity Unit_min Double (1::real)) = Inl Ratio_ill_formed"
  by (simp add: Unit_well_formed_def Unit_canonical_def Unit_min_def operator_divide_def
      length1_def Quantity_def unit_defs ratio_eval)

text \<open>
  Claim C4. Every exponent of the unit of a product and of a quotient is in lowest terms
  with a positive denominator, whatever the operands' exponents were; and two units in that
  form are the same type exactly when their exponents are equal as rationals.
\<close>

theorem canonical_form_invariant:
  fixes a b :: "'v::{times,inverse} Quantity"
  shows
    "(\<forall>c. operator_times a b = Inr c \<or> operator_divide a b = Inr c
        \<longrightarrow> Unit_canonical (UnitType c)) \<and>
     (\<forall>u u'. Unit_canonical u \<and> Unit_canonical u'
        \<longrightarrow> (u = u') = (dimension_vector u = dimension_vector u'))"
  using operator_times_result(1) [of a b] operator_divide_result(1) [of a b]
    Unit_canonical_eq_iff
  by blast

text \<open>C4 on the product and the quotient that \<open>main\<close> computes.\<close>

theorem canonical_form_invariant_witness:
  "operator_times length1 length2 = Inr (Quantity Area Double 50) \<and>
   operator_divide length1 time1 = Inr (Quantity Velocity Double 5) \<and>
   Unit_canonical Area \<and> Unit_canonical Velocity \<and>
   (Area = Velocity) = (dimension_vector Area = dimension_vector Velocity)"
proof -
  note t1 = canonical_form_invariant [where a = length1 and b = length2]
    and t2 = canonical_form_invariant [where a = length1 and b = time1]
  from t1 times_example have "Unit_canonical (UnitType (Quantity Area Double (50::real)))"
    by blast
  then have a: "Unit_canonical Area" by (simp add: Quantity_def)
  from t2 divide_example have "Unit_canonical (UnitType (Quantity Velocity Double (5::real)))"
    by blast
  then have v: "Unit_canonical Velocity" by (simp add: Quantity_def)
  from t1 a v have "(Area = Velocity) = (dimension_vector Area = dimension_vector Velocity)"
    by blast
  with a v times_example divide_example show ?thesis by blast
qed

text \<open>
  Claim C5, as the code has it. The struct defines no comparison operator: each of \<open>==\<close>,
  \<open>!=\<close>, \<open><\<close>, \<open>>\<close>, \<open><=\<close> and \<open>>=\<close> between two quantities is rejected at compile
  time, whether their dimension vectors are equal or not. Comparing a force and a mass
  with \<open><\<close> is one instance.
\<close>

theorem comparisons_not_provided:
  fixes a b :: "'v::{plus,minus,times,inverse} Quantity"
  shows
    "binary_expression Op_eq a (Quantity_operand b) = Inl No_matching_operator \<and>
     binary_expression Op_ne a (Quantity_operand b) = Inl No_matching_operator \<and>
     binary_expression Op_lt a (Quantity_operand b) = Inl No_matching_operator \<and>
     binary_expression Op_gt a (Quantity_operand b) = Inl No_matching_operator \<and>
     binary_expression Op_le a (Quantity_operand b) = Inl No_matching_operator \<and>
     binary_expression Op_ge a (Quantity_operand b) = Inl No_matching_operator"
  by simp

text \<open>
  C5 as it is written fails: the two lengths of \<open>main\<close> have the same unit and the same
  scalar type, and neither \<open>==\<close> nor \<open><\<close> between them is accepted.
\<close>

theorem comparison_counterexample:
  "dimension_vector (UnitType length1) = dimension_vector (UnitType length2) \<and>
   UnitType length1 = UnitType length2 \<and> ValueType length1 = ValueType length2 \<and>
   binary_expression Op_eq length1 (Quantity_operand length2) = Inl No_matching_operator \<and>
   binary_expression Op_lt length1 (Quantity_operand length2) = Inl No_matching_operator"
  by (simp add: length1_def length2_def Quantity_def)

text \<open>
  Claim C6, as the code has it. The struct defines no unary minus and no operator that
  takes a plain scalar: for every quantity \<open>a\<close> and every scalar \<open>s\<close> of any scalar type,
  \<open>-a\<close>, \<open>s * a\<close>, \<open>a * s\<close> and \<open>a / s\<close> are rejected at compile time.
\<close>

theorem negation_and_scalar_mixing_not_provided:
  fixes a :: "'v::{plus,minus,times,inverse} Quantity"
  shows
    "unary_expression Op_negate a = Inl No_matching_operator \<and>
     scalar_left_expression Op_times t s a = Inl No_matching_operator \<and>
     binary_expression Op_times a (Scalar_operand t s) = Inl No_matching_operator \<and>
     binary_expression Op_divide a (Scalar_operand t s) = Inl No_matching_operator"
  by (simp add: unary_expression_def scalar_left_expression_def)

text \<open>
  C6 as it is written fails: none of \<open>-a\<close>, \<open>2.0 * a\<close>, \<open>a * 2.0\<close> and \<open>a / 2.0\<close> is accepted
  for the first length of \<open>main\<close>.
\<close>

theorem negation_and_scalar_mixing_counterexample:
  "unary_expression Op_negate length1 = Inl No_matching_operator \<and>
   scalar_left_expression Op_times Double 2 length1 = Inl No_matching_operator \<and>
   binary_expression Op_times length1 (Scalar_operand Double 2) = Inl No_matching_operator \<and>
   binary_expression Op_divide length1 (Scalar_operand Double 2) = Inl No_matching_operator"
  by (simp add: unary_expression_def scalar_left_expression_def)

text \<open>
  Claim C7. \<open>a * b\<close> and \<open>b * a\<close> are accepted or rejected alike, and when they are accepted,
  their results have the same unit type (hence the same dimension vector) and the same
  scalar type. The scalars need not be equal: nothing is assumed of the scalar type's
  multiplication.
\<close>

theorem product_type_commutes:
  fixes a b :: "'v::times Quantity"
  shows
    "map_sum id (\<lambda>c. (UnitType c, ValueType c)) (operator_times a b) =
     map_sum id (\<lambda>c. (UnitType c, ValueType c)) (operator_times b a) \<and>
     (\<forall>c. operator_times a b = Inr c \<longrightarrow>
        (\<exists>c'. operator_times b a = Inr c' \<and> UnitType c' = UnitType c \<and>
              dimension_vector (UnitType c') = dimension_vector (UnitType c)))"
proof -
  have eq: "map_sum id (\<lambda>c. (UnitType c, ValueType c)) (operator_times a b) =
     map_sum id (\<lambda>c. (UnitType c, ValueType c)) (operator_times b a)"
    using ResultUnit_commute [of "UnitType a" "UnitType b"]
    by (auto simp: operator_times_def ratio_add_type_combine Quantity_def split: sum.splits)
  have "\<exists>c'. operator_times b a = Inr c' \<and> UnitType c' = UnitType c \<and>
              dimension_vector (UnitType c') = dimension_vector (UnitType c)"
    if "operator_times a b = Inr c" for c
    using eq that by (cases "operator_times b a") auto
  with eq show ?thesis by blast
qed

text \<open>C7 on a mass and a length.\<close>

theorem product_type_commutes_witness:
  "operator_times mass1 length1 = Inr (Quantity (UnitType (Quantity
      \<lparr>LengthRatio = Exponent 1, MassRatio = Exponent 1, TimeRatio = Exponent 0,
       CurrentRatio = Exponent 0\<rparr> Double (700::real))) Double 700) \<and>
   (\<exists>c'. operator_times length1 mass1 = Inr c' \<and>
      UnitType c' = \<lparr>LengthRatio = Exponent 1, MassRatio = Exponent 1, TimeRatio = Exponent 0,
       CurrentRatio = Exponent 0\<rparr>)"
proof -
  have e: "operator_times mass1 length1 = Inr (Quantity
      \<lparr>LengthRatio = Exponent 1, MassRatio = Exponent 1, TimeRatio = Exponent 0,
       CurrentRatio = Exponent 0\<rparr> Double 700)"
    by (simp add: operator_times_def mass1_def length1_def Quantity_def unit_defs ratio_eval)
  from product_type_commutes [where a = mass1 and b = length1] e
  have "\<exists>c'. operator_times length1 mass1 = Inr c' \<and>
      UnitType c' = UnitType (Quantity \<lparr>LengthRatio = Exponent 1, MassRatio = Exponent 1,
        TimeRatio = Exponent 0, CurrentRatio = Exponent 0\<rparr> Double (700::real))"
    by blast
  with e show ?thesis by (simp add: Quantity_def)
qed

text \<open>
  Claim C8. Once the library has been opened with handle \<open>h\<close>, \<open>main\<close> returns 1 when the
  first symbol is missing, returns 1 when the second symbol is missing, and returns 0 when
  both symbols are found and both calls into the plugin return; and on every path on
  which \<open>main\<close> returns, the library is closed: the close call on \<open>h\<close> occurs exactly once
  and it is the last call that touches the library. This holds on both platforms. The
  close call is what is claimed; on the successful path its own failure is only reported.
\<close>

theorem loader_releases_on_every_exit:
  "load_library sys (pluginFilename p) = Some h \<longrightarrow>
     (get_symbol sys h ''GetPluginName'' = None
        \<longrightarrow> (\<exists>tr. main p sys = Some (1, tr) \<and> released h tr)) \<and>
     (\<forall>f. get_symbol sys h ''GetPluginName'' = Some f \<and>
          get_symbol sys h ''PerformAddition'' = None
        \<longrightarrow> (\<exists>tr. main p sys = Some (1, tr) \<and> released h tr)) \<and>
     (\<forall>f g name r. get_symbol sys h ''GetPluginName'' = Some f \<and>
          get_symbol sys h ''PerformAddition'' = Some g \<and>
          call_GetPluginNameFunc sys f = Some name \<and>
          call_PerformOperationFunc sys g 10 25 = Some r
        \<longrightarrow> (\<exists>tr. main p sys = Some (0, tr) \<and> released h tr)) \<and>
     (\<forall>rc tr. main p sys = Some (rc, tr) \<longrightarrow> released h tr)"
  using main_first_symbol_missing main_second_symbol_missing main_success main_returns_released
  by blast

text \<open>C8 on the three systems: the example plugin, no symbol at all, the first symbol only.\<close>

theorem loader_releases_on_every_exit_witness:
  "load_library basic_plugin (pluginFilename Posix) = Some 1 \<and>
   get_symbol basic_plugin 1 ''GetPluginName'' = Some 100 \<and>
   get_symbol basic_plugin 1 ''PerformAddition'' = Some 200 \<and>
   call_GetPluginNameFunc basic_plugin 100 = Some ''Basic Cpp Plugin v1.0'' \<and>
   call_PerformOperationFunc basic_plugin 200 10 25 = Some 35 \<and>
   (\<exists>tr. main Posix basic_plugin = Some (0, tr) \<and> released 1 tr) \<and>
   load_library no_symbols (pluginFilename Win32) = Some 1 \<and>
   get_symbol no_symbols 1 ''GetPluginName'' = None \<and>
   (\<exists>tr. main Win32 no_symbols = Some (1, tr) \<and> released 1 tr) \<and>
   load_library name_only (pluginFilename Posix) = Some 1 \<and>
   get_symbol name_only 1 ''GetPluginName'' = Some 100 \<and>
   get_symbol name_only 1 ''PerformAddition'' = None \<and>
   (\<exists>tr. main Posix name_only = Some (1, tr) \<and> released 1 tr)"
proof -
  have a: "load_library basic_plugin (pluginFilename Posix) = Some 1"
    "get_symbol basic_plugin 1 ''GetPluginName'' = Some 100"
    "get_symbol basic_plugin 1 ''PerformAddition'' = Some 200"
    "call_GetPluginNameFunc basic_plugin 100 = Some ''Basic Cpp Plugin v1.0''"
    "call_PerformOperationFunc basic_plugin 200 10 25 = Some 35"
    by (simp_all add: basic_plugin_def)
  have b: "load_library no_symbols (pluginFilename Win32) = Some 1"
    "get_symbol no_symbols 1 ''GetPluginName'' = None"
    by (simp_all add: no_symbols_def basic_plugin_def)
  have c: "load_library name_only (pluginFilename Posix) = Some 1"
    "get_symbol name_only 1 ''GetPluginName'' = Some 100"
    "get_symbol name_only 1 ''PerformAddition'' = None"
    by (simp_all add: name_only_def basic_plugin_def)
  from loader_releases_on_every_exit [where sys = basic_plugin and p = Posix and h = 1] a
  have 1: "\<exists>tr. main Posix basic_plugin = Some (0, tr) \<and> released 1 tr" by blast
  from loader_releases_on_every_exit [where sys = no_symbols and p = Win32 and h = 1] b
  have 2: "\<exists>tr. main Win32 no_symbols = Some (1, tr) \<and> released 1 tr" by blast
  from loader_releases_on_every_exit [where sys = name_only and p = Posix and h = 1] c
  have 3: "\<exists>tr. main Posix name_only = Some (1, tr) \<and> released 1 tr" by blast
  from a b c 1 2 3 show ?thesis by blast
qed

text \<open>
  Claim C9. Each of \<open>+\<close>, \<open>-\<close>, \<open>*\<close> and \<open>/\<close> is rejected when the scalar types of its two
  operands differ, and a result, where there is one, has the operands' scalar type.
\<close>

theorem same_scalar_type_required:
  fixes a b :: "'v::{plus,minus,times,inverse} Quantity"
  shows
    "(ValueType b \<noteq> ValueType a \<longrightarrow>
        operator_plus a b = Inl No_matching_operator \<and>
        operator_minus a b = Inl No_matching_operator \<and>
        operator_times a b = Inl No_matching_operator \<and>
        operator_divide a b = Inl No_matching_operator) \<and>
     (\<forall>c. operator_plus a b = Inr c \<or> operator_minus a b = Inr c \<or>
          operator_times a b = Inr c \<or> operator_divide a b = Inr c
        \<longrightarrow> ValueType b = ValueType a \<and> ValueType c = ValueType a)"
proof -
  have "ValueType b = ValueType a \<and> ValueType c = ValueType a"
    if "operator_plus a b = Inr c \<or> operator_minus a b = Inr c" for c
    using that by (auto simp: operator_plus_def operator_minus_def Quantity_def split: if_splits)
  moreover have "ValueType b = ValueType a \<and> ValueType c = ValueType a"
    if "operator_times a b = Inr c \<or> operator_divide a b = Inr c" for c
    using that operator_times_result(4,5) [of a b c] operator_divide_result(4,5) [of a b c]
    by blast
  moreover have "operator_plus a b = Inl No_matching_operator \<and>
        operator_minus a b = Inl No_matching_operator \<and>
        operator_times a b = Inl No_matching_operator \<and>
        operator_divide a b = Inl No_matching_operator" if "ValueType b \<noteq> ValueType a"
    using that
    by (simp add: operator_plus_def operator_minus_def operator_times_def operator_divide_def)
  ultimately show ?thesis by blast
qed

text \<open>
  C9 on a single-precision length and a double-precision length, and on the two
  double-precision lengths of \<open>main\<close>.
\<close>

theorem same_scalar_type_required_witness:
  "ValueType (Quantity Meter Double (5::real)) \<noteq> ValueType (Quantity Meter Float (10::real)) \<and>
   operator_times (Quantity Meter Float (10::real)) (Quantity Meter Double 5)
     = Inl No_matching_operator \<and>
   operator_plus (Quantity Meter Float (10::real)) (Quantity Meter Double 5)
     = Inl No_matching_operator \<and>
   operator_times length1 length2 = Inr (Quantity Area Double 50) \<and>
   ValueType length2 = ValueType length1 \<and>
   ValueType (Quantity Area Double (50::real)) = ValueType length1"
proof -
  have n: "ValueType (Quantity Meter Double (5::real)) \<noteq> ValueType (Quantity Meter Float (10::real))"
    by (simp add: Quantity_def)
  from same_scalar_type_required
    [where a = "Quantity Meter Float (10::real)" and b = "Quantity Meter Double 5"] n
  have r: "operator_times (Quantity Meter Float (10::real)) (Quantity Meter Double 5)
     = Inl No_matching_operator"
    "operator_plus (Quantity Meter Float (10::real)) (Quantity Meter Double 5)
     = Inl No_matching_operator" by blast+
  from same_scalar_type_required [where a = length1 and b = length2] times_example
  have "ValueType length2 = ValueType length1 \<and>
    ValueType (Quantity Area Double (50::real)) = ValueType length1" by blast
  with n r times_example show ?thesis by blast
qed

text \<open>
  Claim C10. Constructing a quantity of unit \<open>D\<close> and scalar type \<open>S\<close> from the scalar \<open>v\<close>
  and reading its member gives \<open>v\<close> back; the quantity has the unit and the scalar type it
  was constructed with. Construction and reading are functions of their arguments alone.
\<close>

theorem construction_roundtrip:
  "val (Quantity D S v) = v \<and> UnitType (Quantity D S v) = D \<and> ValueType (Quantity D S v) = S"
  by (simp add: Quantity_def)

end
